theory Spec2Isabelle
  imports Complex_Main
begin

section \<open>JavaScript numbers\<close>

text \<open>
  A JavaScript number is a finite value, one of the two infinities, or NaN.  The finite
  values are modelled by the reals with exact arithmetic: rounding, overflow of a finite
  result and the sign of zero are not represented.  Comparisons and the special values
  follow IEEE 754 as JavaScript has them: every comparison with NaN is false.
\<close>

datatype jsnum = Num real | PosInf | NegInf | NaN

fun js_neg :: "jsnum \<Rightarrow> jsnum" where
  "js_neg (Num a) = Num (- a)"
| "js_neg PosInf = NegInf"
| "js_neg NegInf = PosInf"
| "js_neg NaN = NaN"

fun js_add :: "jsnum \<Rightarrow> jsnum \<Rightarrow> jsnum" where
  "js_add (Num a) (Num b) = Num (a + b)"
| "js_add NaN _ = NaN"
| "js_add _ NaN = NaN"
| "js_add PosInf NegInf = NaN"
| "js_add NegInf PosInf = NaN"
| "js_add PosInf _ = PosInf"
| "js_add _ PosInf = PosInf"
| "js_add NegInf _ = NegInf"
| "js_add _ NegInf = NegInf"

definition js_sub :: "jsnum \<Rightarrow> jsnum \<Rightarrow> jsnum" where
  "js_sub a b = js_add a (js_neg b)"

fun js_mul :: "jsnum \<Rightarrow> jsnum \<Rightarrow> jsnum" where
  "js_mul (Num a) (Num b) = Num (a * b)"
| "js_mul NaN _ = NaN"
| "js_mul _ NaN = NaN"
| "js_mul (Num a) PosInf = (if a = 0 then NaN else if 0 < a then PosInf else NegInf)"
| "js_mul (Num a) NegInf = (if a = 0 then NaN else if 0 < a then NegInf else PosInf)"
| "js_mul PosInf (Num b) = (if b = 0 then NaN else if 0 < b then PosInf else NegInf)"
| "js_mul NegInf (Num b) = (if b = 0 then NaN else if 0 < b then NegInf else PosInf)"
| "js_mul PosInf PosInf = PosInf"
| "js_mul PosInf NegInf = NegInf"
| "js_mul NegInf PosInf = NegInf"
| "js_mul NegInf NegInf = PosInf"

fun js_div :: "jsnum \<Rightarrow> jsnum \<Rightarrow> jsnum" where
  "js_div (Num a) (Num b) =
     (if b \<noteq> 0 then Num (a / b)
      else if a = 0 then NaN else if 0 < a then PosInf else NegInf)"
| "js_div NaN _ = NaN"
| "js_div _ NaN = NaN"
| "js_div (Num a) _ = Num 0"
| "js_div PosInf (Num b) = (if 0 \<le> b then PosInf else NegInf)"
| "js_div NegInf (Num b) = (if 0 \<le> b then NegInf else PosInf)"
| "js_div _ _ = NaN"

fun js_sqrt :: "jsnum \<Rightarrow> jsnum" where
  "js_sqrt (Num a) = (if a < 0 then NaN else Num (sqrt a))"
| "js_sqrt PosInf = PosInf"
| "js_sqrt NegInf = NaN"
| "js_sqrt NaN = NaN"

text \<open>The operators \<open><\<close> and \<open>>\<close> on numbers.\<close>

fun js_lt :: "jsnum \<Rightarrow> jsnum \<Rightarrow> bool" where
  "js_lt (Num a) (Num b) = (a < b)"
| "js_lt NaN _ = False"
| "js_lt _ NaN = False"
| "js_lt PosInf _ = False"
| "js_lt _ NegInf = False"
| "js_lt _ _ = True"

definition js_gt :: "jsnum \<Rightarrow> jsnum \<Rightarrow> bool" where
  "js_gt a b = js_lt b a"

text \<open>The globals \<open>isFinite\<close> and \<open>isNaN\<close> on a number.\<close>

fun isFinite :: "jsnum \<Rightarrow> bool" where
  "isFinite (Num a) = True"
| "isFinite _ = False"

fun isNaN :: "jsnum \<Rightarrow> bool" where
  "isNaN NaN = True"
| "isNaN _ = False"

section \<open>Vectors\<close>

text \<open>
  Modelled from the spec: \<open>p5.Vector\<close> (\<open>createVector\<close>, \<open>copy\<close>, \<open>add\<close>, \<open>sub\<close>,
  \<open>mult\<close>, \<open>div\<close>, \<open>mag\<close>) belongs to the p5 library, which is not among the sources.
  The spec's Vector2 is a pair of floating-point components with componentwise
  addition and subtraction, scaling and division by a number, and the Euclidean
  magnitude.  The third component of a p5 vector stays 0 throughout and is left out.
\<close>

datatype vec = Vec (vec_x: jsnum) (vec_y: jsnum)

definition createVector :: "jsnum \<Rightarrow> jsnum \<Rightarrow> vec" where
  "createVector x y = Vec x y"

definition vadd :: "vec \<Rightarrow> vec \<Rightarrow> vec" where
  "vadd u v = Vec (js_add (vec_x u) (vec_x v)) (js_add (vec_y u) (vec_y v))"

definition vsub :: "vec \<Rightarrow> vec \<Rightarrow> vec" where
  "vsub u v = Vec (js_sub (vec_x u) (vec_x v)) (js_sub (vec_y u) (vec_y v))"

definition vmult :: "vec \<Rightarrow> jsnum \<Rightarrow> vec" where
  "vmult u n = Vec (js_mul (vec_x u) n) (js_mul (vec_y u) n)"

definition vdiv :: "vec \<Rightarrow> jsnum \<Rightarrow> vec" where
  "vdiv u n = Vec (js_div (vec_x u) n) (js_div (vec_y u) n)"

definition mag :: "vec \<Rightarrow> jsnum" where
  "mag u = js_sqrt (js_add (js_mul (vec_x u) (vec_x u)) (js_mul (vec_y u) (vec_y u)))"

section \<open>Enumerations\<close>

text \<open>
  \<open>EdgeMode\<close> and \<open>DrawableBodyMode\<close> are frozen objects of integer constants; a mode
  field can hold any other value, which is what the \<open>default\<close> branches of the
  switches catch.
\<close>

definition EdgeMode_None :: int where "EdgeMode_None = 0"
definition EdgeMode_Hold :: int where "EdgeMode_Hold = 1"
definition EdgeMode_Wrap :: int where "EdgeMode_Wrap = 2"
definition EdgeMode_Bounce :: int where "EdgeMode_Bounce = 3"

definition DrawableBodyMode_Point :: int where "DrawableBodyMode_Point = 1"
definition DrawableBodyMode_Ellipse :: int where "DrawableBodyMode_Ellipse = 2"
definition DrawableBodyMode_Rectangle :: int where "DrawableBodyMode_Rectangle = 3"
definition DrawableBodyMode_Path :: int where "DrawableBodyMode_Path = 4"

section \<open>Errors\<close>

text \<open>
  Every \<open>throw\<close> of the source is a value: \<open>Error msg\<close> is \<open>new Error(msg)\<close>, and
  \<open>TypeError\<close> is what JavaScript raises on reading a property of \<open>null\<close>.
\<close>

datatype error = Error string | TypeError

section \<open>Bodies\<close>

text \<open>
  \<open>Body\<close> and its subclass \<open>DrawableBody\<close> as one record.  The private fields
  \<open>_pos\<close>, \<open>_vel\<close>, ... appear as \<open>b_pos\<close>, \<open>b_vel\<close>, ...; \<open>\<mu>\<close> is \<open>b_mu\<close>.  The type
  parameter says how the body holds its vectors: by value (\<open>vec\<close>) where the code goes
  through the copying accessors, or by address into a store of vector objects where
  sharing matters.  The hooks \<open>cbOnUpdate\<close> and \<open>cbOnApply\<close> are caller-supplied; the
  first is represented by whether it returns something other than \<open>false\<close>.  The hooks
  \<open>cbChangeVel\<close> and \<open>cbChangeAcc\<close> are the empty functions the constructor installs,
  \<open>cbChangePos\<close> is the one \<open>DrawableBody\<close> installs.  \<open>_world\<close> is the identity of the
  owning world or \<open>null\<close>.  The colour fields serve rendering only and are left out.
\<close>

type_synonym wid = nat
type_synonym bid = nat
type_synonym vertex = "jsnum \<times> jsnum"

record 'v bbox =
  bb_pos :: 'v
  bb_w :: jsnum
  bb_h :: jsnum

record 'v body =
  b_id :: nat
  b_pos :: 'v
  b_vel :: 'v
  b_acc :: 'v
  b_w :: jsnum
  b_h :: jsnum
  b_mass :: jsnum
  b_cr :: jsnum
  b_mu :: jsnum
  b_world :: "wid option"
  static :: bool
  solid :: bool
  cbOnUpdate :: bool
  cbOnApply :: "vec \<Rightarrow> vec"
  b_mode :: int
  b_oPath :: "vertex list"
  b_path :: "vertex list"
  b_bb :: "'v bbox"

text \<open>
  The hook of \<open>DrawableBody\<close>: in Path mode the absolute vertices are recomputed from
  the relative ones.  \<open>deref\<close> reads the position vector out of the field.
\<close>

definition cbChangePos :: "('v \<Rightarrow> vec) \<Rightarrow> 'v body \<Rightarrow> 'v body" where
  "cbChangePos deref b =
     (if b_mode b = DrawableBodyMode_Path
      then b\<lparr>b_path := map (\<lambda>v. (js_add (fst v) (vec_x (deref (b_pos b))),
                                  js_add (snd v) (vec_y (deref (b_pos b))))) (b_oPath b)\<rparr>
      else b)"

subsection \<open>Accessors on bodies holding their vectors by value\<close>

definition pos_set :: "vec \<Rightarrow> vec body \<Rightarrow> vec body" where
  "pos_set vector b = cbChangePos (\<lambda>v. v) (b\<lparr>b_pos := vector\<rparr>)"

definition posX :: "vec body \<Rightarrow> jsnum" where
  "posX b = vec_x (b_pos b)"

definition posY :: "vec body \<Rightarrow> jsnum" where
  "posY b = vec_y (b_pos b)"

definition posX_set :: "jsnum \<Rightarrow> vec body \<Rightarrow> vec body" where
  "posX_set x b = cbChangePos (\<lambda>v. v) (b\<lparr>b_pos := Vec x (vec_y (b_pos b))\<rparr>)"

definition posY_set :: "jsnum \<Rightarrow> vec body \<Rightarrow> vec body" where
  "posY_set y b = cbChangePos (\<lambda>v. v) (b\<lparr>b_pos := Vec (vec_x (b_pos b)) y\<rparr>)"

definition vel_set :: "vec \<Rightarrow> vec body \<Rightarrow> vec body" where
  "vel_set vector b = b\<lparr>b_vel := vector\<rparr>"

definition velX :: "vec body \<Rightarrow> jsnum" where
  "velX b = vec_x (b_vel b)"

definition velY :: "vec body \<Rightarrow> jsnum" where
  "velY b = vec_y (b_vel b)"

definition velX_set :: "jsnum \<Rightarrow> vec body \<Rightarrow> vec body" where
  "velX_set x b = b\<lparr>b_vel := Vec x (vec_y (b_vel b))\<rparr>"

definition velY_set :: "jsnum \<Rightarrow> vec body \<Rightarrow> vec body" where
  "velY_set y b = b\<lparr>b_vel := Vec (vec_x (b_vel b)) y\<rparr>"

definition acc_set :: "vec \<Rightarrow> vec body \<Rightarrow> vec body" where
  "acc_set vector b = b\<lparr>b_acc := vector\<rparr>"

definition mass :: "vec body \<Rightarrow> jsnum" where
  "mass b = b_mass b"

subsection \<open>Coefficients of restitution and friction\<close>

text \<open>
  The methods are getter and setter in one: called without an argument they return
  the field, called with a number they clamp and store it.
\<close>

definition coefficientOfRestitution :: "'v body \<Rightarrow> jsnum" where
  "coefficientOfRestitution b = b_cr b"

definition coefficientOfRestitution_set :: "jsnum \<Rightarrow> 'v body \<Rightarrow> 'v body" where
  "coefficientOfRestitution_set val b =
     (let val1 = (if js_lt val (Num 0) then Num 0
                  else if js_gt val (Num 1) \<or> \<not> isFinite val \<or> isNaN val then Num 1
                  else val)
      in b\<lparr>b_cr := val1\<rparr>)"

definition coefficientOfFriction :: "'v body \<Rightarrow> jsnum" where
  "coefficientOfFriction b = b_mu b"

definition coefficientOfFriction_set :: "jsnum \<Rightarrow> 'v body \<Rightarrow> 'v body" where
  "coefficientOfFriction_set val b =
     (let val1 = (if js_lt val (Num 0) then Num 0
                  else if js_gt val (Num 1) \<or> \<not> isFinite val \<or> isNaN val then Num 1
                  else val)
      in b\<lparr>b_mu := val1\<rparr>)"

subsection \<open>Integration and forces\<close>

text \<open>\<open>Body.update\<close>: returns the body and whether it moved.\<close>

definition update :: "vec body \<Rightarrow> vec body \<times> bool" where
  "update b =
     (if \<not> static b \<or> \<not> cbOnUpdate b then
        (let b1 = vel_set (vadd (b_vel b) (b_acc b)) b;
             b2 = pos_set (vadd (b_pos b1) (b_vel b1)) b1;
             b3 = acc_set (createVector (Num 0) (Num 0)) b2
         in (b3, True))
      else (b, False))"

definition applyForce :: "vec \<Rightarrow> vec body \<Rightarrow> vec body" where
  "applyForce force b =
     (if \<not> static b then
        (let f = vdiv force (b_mass b);
             f1 = cbOnApply b f
         in acc_set (vadd (b_acc b) f1) b)
      else b)"

text \<open>A run of \<open>applyForce\<close> calls, first force first.\<close>

fun applyForces :: "vec list \<Rightarrow> vec body \<Rightarrow> vec body" where
  "applyForces [] b = b"
| "applyForces (f # fs) b = applyForces fs (applyForce f b)"

section \<open>Worlds\<close>

text \<open>
  The world record: the bounds, the bodies by identity in insertion order, gravity
  (a vector or \<open>null\<close>), the edge mode and the flags.
\<close>

record world =
  w_x :: jsnum
  w_y :: jsnum
  w_w :: jsnum
  w_h :: jsnum
  bodies :: "bid list"
  G :: "vec option"
  edgeMode :: int
  doCollisions :: bool
  logWarnings :: bool

subsection \<open>Edge handling\<close>

text \<open>
  \<open>Body.edges\<close>.  The argument is what \<open>this._world\<close> holds: reading \<open>edgeMode\<close> off
  \<open>null\<close> raises.  An unknown mode warns on the console and changes nothing.
\<close>

definition edges :: "world option \<Rightarrow> vec body \<Rightarrow> error + vec body" where
  "edges Wo b =
     (case Wo of
        None \<Rightarrow> Inl TypeError
      | Some W \<Rightarrow>
         (if edgeMode W = EdgeMode_None then Inr b
          else if edgeMode W = EdgeMode_Hold then
            (let b1 = (if js_lt (posX b) (w_x W) then posX_set (w_x W) b else b);
                 b2 = (if js_gt (posX b1) (js_add (w_x W) (w_w W))
                       then posX_set (js_add (w_x W) (w_w W)) b1 else b1);
                 b3 = (if js_lt (posY b2) (w_y W) then posY_set (w_y W) b2 else b2);
                 b4 = (if js_gt (posY b3) (js_add (w_y W) (w_h W))
                       then posY_set (js_add (w_y W) (w_h W)) b3 else b3)
             in Inr b4)
          else if edgeMode W = EdgeMode_Wrap then
            (let b1 = (if js_lt (posX b) (w_x W) then posX_set (js_add (w_x W) (w_w W)) b
                       else if js_gt (posX b) (js_add (w_x W) (w_w W))
                       then posX_set (w_x W) b else b);
                 b2 = (if js_lt (posY b1) (w_y W) then posY_set (js_add (w_y W) (w_h W)) b1
                       else if js_gt (posY b1) (js_add (w_y W) (w_h W))
                       then posY_set (w_y W) b1 else b1)
             in Inr b2)
          else if edgeMode W = EdgeMode_Bounce then
            (let b1 = (if js_lt (posX b) (w_x W)
                       then (let c = posX_set (w_x W) b in velX_set (js_neg (velX c)) c)
                       else if js_gt (posX b) (js_add (w_x W) (w_w W))
                       then (let c = posX_set (js_add (w_x W) (w_w W)) b
                             in velX_set (js_neg (velX c)) c)
                       else b);
                 b2 = (if js_lt (posY b1) (w_y W)
                       then (let c = posY_set (w_y W) b1 in velY_set (js_neg (velY c)) c)
                       else if js_gt (posY b1) (js_add (w_y W) (w_h W))
                       then (let c = posY_set (js_add (w_y W) (w_h W)) b1
                             in velY_set (js_neg (velY c)) c)
                       else b1)
             in Inr b2)
          else Inr b))"

subsection \<open>Collision response\<close>

text \<open>
  \<open>Body.collide\<close>, on the two bodies as a pair.  \<open>x.vel()\<close> is a copy, so every
  operand below is the velocity before the call.
\<close>

definition collide :: "vec body \<Rightarrow> vec body \<Rightarrow> vec body \<times> vec body" where
  "collide a b =
     (if solid a \<and> solid b then
        (if static a then
           (a, vel_set (vmult (b_vel b) (js_neg (coefficientOfRestitution b))) b)
         else if static b then
           (a, vel_set (vmult (b_vel a) (js_neg (coefficientOfRestitution a))) b)
         else
           (let a_m = mass a; b_m = mass b;
                a_mu = vmult (b_vel a) a_m;
                b_mu = vmult (b_vel b) b_m;
                velA = vdiv (vadd (vadd (vmult (vmult (vsub (b_vel b) (b_vel a)) b_m)
                          (coefficientOfRestitution a)) a_mu) b_mu) (js_add a_m b_m);
                velB = vdiv (vadd (vadd (vmult (vmult (vsub (b_vel a) (b_vel b)) a_m)
                          (coefficientOfRestitution b)) a_mu) b_mu) (js_add a_m b_m)
            in (vel_set velA a, vel_set velB b)))
      else (a, b))"

text \<open>
  The previous revision of \<open>Body.collide\<close>, which works on the public \<open>vel\<close> field in
  place.  It differs from the current one in the branch for a static \<open>b\<close>.
\<close>

definition collide_prev :: "vec body \<Rightarrow> vec body \<Rightarrow> vec body \<times> vec body" where
  "collide_prev a b =
     (if solid a \<and> solid b then
        (if static a then
           (a, b\<lparr>b_vel := vmult (b_vel b) (js_neg (coefficientOfRestitution b))\<rparr>)
         else if static b then
           (a\<lparr>b_vel := vmult (b_vel a) (js_neg (coefficientOfRestitution a))\<rparr>, b)
         else
           (let a_m = mass a; b_m = mass b;
                a_mu = vmult (b_vel a) a_m;
                b_mu = vmult (b_vel b) b_m;
                velA = vdiv (vadd (vadd (vmult (vmult (vsub (b_vel b) (b_vel a)) b_m)
                          (coefficientOfRestitution a)) a_mu) b_mu) (js_add a_m b_m);
                velB = vdiv (vadd (vadd (vmult (vmult (vsub (b_vel a) (b_vel b)) a_m)
                          (coefficientOfRestitution b)) a_mu) b_mu) (js_add a_m b_m)
            in (a\<lparr>b_vel := velA\<rparr>, b\<lparr>b_vel := velB\<rparr>)))
      else (a, b))"

section \<open>Drawable bodies\<close>

subsection \<open>Bounding box\<close>

text \<open>
  One round of the loop over the vertices of a path: the running top-left and
  bottom-right corners, each coordinate replaced when the vertex lies beyond it.
\<close>

definition bb_step :: "vertex \<times> vertex \<Rightarrow> vertex \<Rightarrow> vertex \<times> vertex" where
  "bb_step corners vertex =
     (let topleft = fst corners; bottomright = snd corners;
          tl0 = (if js_lt (fst vertex) (fst topleft) then fst vertex else fst topleft);
          tl1 = (if js_lt (snd vertex) (snd topleft) then snd vertex else snd topleft);
          br0 = (if js_gt (fst vertex) (fst bottomright) then fst vertex else fst bottomright);
          br1 = (if js_gt (snd vertex) (snd bottomright) then snd vertex else snd bottomright)
      in ((tl0, tl1), (br0, br1)))"

text \<open>\<open>DrawableBody._calcBoundingBox\<close>; a mode outside the four known ones throws.\<close>

definition calcBoundingBox :: "vec body \<Rightarrow> error + vec body" where
  "calcBoundingBox b =
     (if b_mode b = DrawableBodyMode_Point then
        Inr (b\<lparr>b_bb := \<lparr>bb_pos = b_pos b, bb_w = Num 1, bb_h = Num 1\<rparr>\<rparr>)
      else if b_mode b = DrawableBodyMode_Ellipse then
        Inr (b\<lparr>b_bb := \<lparr>bb_pos = createVector (js_sub (posX b) (js_div (b_w b) (Num 2)))
                                                 (js_sub (posY b) (js_div (b_h b) (Num 2))),
                        bb_w = b_w b, bb_h = b_h b\<rparr>\<rparr>)
      else if b_mode b = DrawableBodyMode_Rectangle then
        Inr (b\<lparr>b_bb := \<lparr>bb_pos = b_pos b, bb_w = b_w b, bb_h = b_h b\<rparr>\<rparr>)
      else if b_mode b = DrawableBodyMode_Path then
        (let corners = foldl bb_step ((PosInf, PosInf), (NegInf, NegInf)) (b_path b);
             topleft = fst corners; bottomright = snd corners
         in Inr (b\<lparr>b_bb := \<lparr>bb_pos = createVector (fst topleft) (snd topleft),
                             bb_w = js_sub (fst bottomright) (fst topleft),
                             bb_h = js_sub (snd bottomright) (snd topleft)\<rparr>\<rparr>))
      else Inl (Error ''_calcBoundingBox(): Cannot create bounding box for DrawableBody''))"

subsection \<open>Construction\<close>

text \<open>
  \<open>new DrawableBody(x, y, w, h)\<close>; the first argument is the value of the global
  counter \<open>__body_id\<close> that the constructor takes as the body's id.
\<close>

definition DrawableBody_new :: "nat \<Rightarrow> jsnum \<Rightarrow> jsnum \<Rightarrow> jsnum \<Rightarrow> jsnum \<Rightarrow> error + vec body" where
  "DrawableBody_new i x y w h =
     calcBoundingBox
       \<lparr>b_id = i, b_pos = createVector x y, b_vel = createVector (Num 0) (Num 0),
        b_acc = createVector (Num 0) (Num 0), b_w = w, b_h = h, b_mass = Num 1,
        b_cr = Num 1, b_mu = Num 0, b_world = None, static = False, solid = True,
        cbOnUpdate = True, cbOnApply = (\<lambda>f. f),
        b_mode = DrawableBodyMode_Rectangle, b_oPath = [], b_path = [],
        b_bb = \<lparr>bb_pos = createVector NaN NaN, bb_w = Num 0, bb_h = Num 0\<rparr>\<rparr>"

subsection \<open>Shape mutators\<close>

text \<open>
  \<open>DrawableBody.setPolygon(...vertices)\<close>.  An argument is a vertex or \<open>null\<close>; with a
  first argument \<open>null\<close> only the mode is set.  Reading a coordinate off a \<open>null\<close>
  further along raises inside \<open>map\<close>.
\<close>

definition setPolygon :: "vertex option list \<Rightarrow> vec body \<Rightarrow> error + vec body" where
  "setPolygon vertices b =
     (let b1 = b\<lparr>b_mode := DrawableBodyMode_Path\<rparr>
      in case vertices of
           None # _ \<Rightarrow> Inr b1
         | _ \<Rightarrow>
           (if None \<in> set vertices then Inl TypeError
            else calcBoundingBox
                   (b1\<lparr>b_path := map the vertices,
                       b_oPath := map (\<lambda>v. (js_sub (fst v) (vec_x (b_pos b1)),
                                             js_sub (snd v) (vec_y (b_pos b1))))
                                      (map the vertices)\<rparr>)))"

text \<open>
  \<open>DrawableBody.setPath(...path)\<close> of the earlier revision of the class, which
  \<open>setPolygon\<close> replaced: it refuses to work outside Path mode.
\<close>

definition setPath :: "vertex list \<Rightarrow> vec body \<Rightarrow> error + vec body" where
  "setPath path b =
     (if b_mode b \<noteq> DrawableBodyMode_Path
      then Inl (Error ''Cannot utilise method - drawing mode is not path'')
      else Inr (b\<lparr>b_path := path\<rparr>))"

text \<open>\<open>DrawableBody.update\<close>: the bounding box follows the body when it moved.\<close>

definition DrawableBody_update :: "vec body \<Rightarrow> error + vec body" where
  "DrawableBody_update b =
     (let r = update b in if snd r then calcBoundingBox (fst r) else Inr (fst r))"

section \<open>The position accessor on shared vector objects\<close>

text \<open>
  Vector objects live in a store; an address is an index into it, and a new object
  takes the next free index.  Mutating a vector object in place is \<open>H[p := u]\<close>.

  \<open>copy\<close> is \<open>p5.Vector.copy\<close>, of the p5 library, which is not among the sources.
  It builds a new vector object from the components of the old one, and the p5
  constructor stores each component \<open>x\<close> as \<open>x || 0\<close>: NaN and zero are falsy, so a NaN
  component of the original is 0 in the copy, and every other component is kept.
\<close>

type_synonym addr = nat
type_synonym vstore = "vec list"

definition or_zero :: "jsnum \<Rightarrow> jsnum" where
  "or_zero x = (if isNaN x \<or> x = Num 0 then Num 0 else x)"

definition copy :: "vstore \<Rightarrow> addr \<Rightarrow> vstore \<times> addr" where
  "copy H p = (H @ [Vec (or_zero (vec_x (H ! p))) (or_zero (vec_y (H ! p)))], length H)"

text \<open>\<open>pos()\<close>: the getter returns the address of a copy.\<close>

definition pos_get_ref :: "vstore \<Rightarrow> addr body \<Rightarrow> vstore \<times> addr" where
  "pos_get_ref H b = copy H (b_pos b)"

text \<open>\<open>pos(vector)\<close>: the setter stores the address of a copy and runs the hook.\<close>

definition pos_set_ref :: "addr \<Rightarrow> vstore \<Rightarrow> addr body \<Rightarrow> vstore \<times> addr body" where
  "pos_set_ref vector H b =
     (let r = copy H vector;
          b1 = b\<lparr>b_pos := snd r\<rparr>
      in (fst r, cbChangePos (\<lambda>p. fst r ! p) b1))"

section \<open>World membership\<close>

text \<open>
  All bodies by identity and the World instances by index.  \<open>World.addBody\<close> writes the
  back-reference and pushes; \<open>World.remove\<close> looks the body up with \<open>indexOf\<close> and
  splices one element out.
\<close>

record heap =
  h_bodies :: "bid \<Rightarrow> vec body"
  h_worlds :: "world list"

fun indexOf :: "'a list \<Rightarrow> 'a \<Rightarrow> int" where
  "indexOf [] x = - 1"
| "indexOf (y # ys) x =
     (if y = x then 0 else (let i = indexOf ys x in if i = - 1 then - 1 else i + 1))"

definition splice1 :: "nat \<Rightarrow> 'a list \<Rightarrow> 'a list" where
  "splice1 i xs = take i xs @ drop (i + 1) xs"

definition World_addBody :: "wid \<Rightarrow> bid \<Rightarrow> heap \<Rightarrow> heap" where
  "World_addBody w body H =
     H\<lparr>h_bodies := (h_bodies H)(body := (h_bodies H body)\<lparr>b_world := Some w\<rparr>),
       h_worlds := (h_worlds H)[w := (h_worlds H ! w)\<lparr>bodies := bodies (h_worlds H ! w) @ [body]\<rparr>]\<rparr>"

definition World_remove :: "wid \<Rightarrow> bid \<Rightarrow> heap \<Rightarrow> heap \<times> bool" where
  "World_remove w body H =
     (let i = indexOf (bodies (h_worlds H ! w)) body
      in if i \<noteq> - 1
         then (H\<lparr>h_worlds := (h_worlds H)[w := (h_worlds H ! w)\<lparr>bodies := splice1 (nat i) (bodies (h_worlds H ! w))\<rparr>]\<rparr>, True)
         else (H, False))"

datatype world_op = AddBody wid bid | Remove wid bid

fun apply_op :: "world_op \<Rightarrow> heap \<Rightarrow> heap" where
  "apply_op (AddBody w b) H = World_addBody w b H"
| "apply_op (Remove w b) H = fst (World_remove w b H)"

fun run_ops :: "world_op list \<Rightarrow> heap \<Rightarrow> heap" where
  "run_ops [] H = H"
| "run_ops (x # xs) H = run_ops xs (apply_op x H)"

text \<open>A body is attached when some world's collection holds it.\<close>

definition attached :: "heap \<Rightarrow> bid \<Rightarrow> bool" where
  "attached H b = (\<exists>W \<in> set (h_worlds H). b \<in> set (bodies W))"

text \<open>
  The runs in which every operation names an existing world and \<open>addBody\<close> is only
  given a body that is attached nowhere at that moment.
\<close>

fun adds_detached :: "world_op list \<Rightarrow> heap \<Rightarrow> bool" where
  "adds_detached [] H = True"
| "adds_detached (AddBody w b # xs) H =
     (w < length (h_worlds H) \<and> \<not> attached H b \<and> adds_detached xs (World_addBody w b H))"
| "adds_detached (Remove w b # xs) H =
     (w < length (h_worlds H) \<and> adds_detached xs (fst (World_remove w b H)))"

section \<open>The collision sweep of a step\<close>

text \<open>
  The second half of \<open>World.update\<close>.  \<open>calculatedCollisions\<close> is the array of the
  source; \<open>collide_calls\<close> records each call of \<open>Body.collide\<close> with its arguments, in
  order.  The detector \<open>DrawableBody.collision\<close> rests on the p5.collide2D library,
  which is not among the sources: it is a parameter, a test on the two bodies.
\<close>

record sweep_state =
  store :: "bid \<Rightarrow> vec body"
  calculatedCollisions :: "(bid \<times> bid) list"
  collide_calls :: "(bid \<times> bid) list"

fun doneCollision :: "(bid \<times> bid) list \<Rightarrow> bid \<Rightarrow> bid \<Rightarrow> bool" where
  "doneCollision [] a b = False"
| "doneCollision (c # cs) a b =
     (if (fst c = a \<and> snd c = b) \<or> (fst c = b \<and> snd c = a) then True
      else doneCollision cs a b)"

text \<open>\<open>Body.collide\<close> on two bodies of the store; both writes go to the objects named.\<close>

definition collide_at :: "(bid \<Rightarrow> vec body) \<Rightarrow> bid \<Rightarrow> bid \<Rightarrow> (bid \<Rightarrow> vec body)" where
  "collide_at s a b = (let r = collide (s a) (s b) in s(a := fst r, b := snd r))"

definition sweep_pair ::
  "(vec body \<Rightarrow> vec body \<Rightarrow> bool) \<Rightarrow> bid \<Rightarrow> sweep_state \<Rightarrow> bid \<Rightarrow> sweep_state" where
  "sweep_pair collision bodyA st bodyB =
     (if bodyA \<noteq> bodyB \<and> \<not> doneCollision (calculatedCollisions st) bodyA bodyB then
        (let collided = collision (store st bodyA) (store st bodyB)
         in if collided \<and>
               js_gt (mag (vsub (b_vel (store st bodyA)) (b_vel (store st bodyB)))) (Num 0)
            then st\<lparr>store := collide_at (store st) bodyA bodyB,
                    calculatedCollisions := calculatedCollisions st @ [(bodyA, bodyB)],
                    collide_calls := collide_calls st @ [(bodyA, bodyB)]\<rparr>
            else st)
      else st)"

definition sweep_body ::
  "(vec body \<Rightarrow> vec body \<Rightarrow> bool) \<Rightarrow> world \<Rightarrow> sweep_state \<Rightarrow> bid \<Rightarrow> sweep_state" where
  "sweep_body collision W st bodyA =
     (if doCollisions W \<and> solid (store st bodyA)
      then foldl (sweep_pair collision bodyA) st (bodies W)
      else st)"

definition collisionSweep ::
  "(vec body \<Rightarrow> vec body \<Rightarrow> bool) \<Rightarrow> world \<Rightarrow> (bid \<Rightarrow> vec body) \<Rightarrow> sweep_state" where
  "collisionSweep collision W s =
     foldl (sweep_body collision W)
       \<lparr>store = s, calculatedCollisions = [], collide_calls = []\<rparr> (bodies W)"

section \<open>Sample objects\<close>

text \<open>The body that \<open>new DrawableBody(0, 0, 10, 10)\<close> yields as the first body made.\<close>

definition body0 :: "vec body" where
  "body0 =
     \<lparr>b_id = 0, b_pos = Vec (Num 0) (Num 0), b_vel = Vec (Num 0) (Num 0),
      b_acc = Vec (Num 0) (Num 0), b_w = Num 10, b_h = Num 10, b_mass = Num 1,
      b_cr = Num 1, b_mu = Num 0, b_world = None, static = False, solid = True,
      cbOnUpdate = True, cbOnApply = (\<lambda>f. f),
      b_mode = DrawableBodyMode_Rectangle, b_oPath = [], b_path = [],
      b_bb = \<lparr>bb_pos = Vec (Num 0) (Num 0), bb_w = Num 10, bb_h = Num 10\<rparr>\<rparr>"

text \<open>A world of 400 by 400 at the origin whose edges bounce.\<close>

definition world0 :: world where
  "world0 = \<lparr>w_x = Num 0, w_y = Num 0, w_w = Num 400, w_h = Num 400, bodies = [],
             G = Some (Vec (Num 0) (Num (1/10))), edgeMode = EdgeMode_Bounce,
             doCollisions = True, logWarnings = False\<rparr>"

text \<open>
  A body holding its vectors by address, and a store in which the addresses 0 to 3 are
  its position, velocity, acceleration and bounding-box corner; address 4 is a vector
  of the caller's.
\<close>

definition body_ref0 :: "addr body" where
  "body_ref0 =
     \<lparr>b_id = 0, b_pos = 0, b_vel = 1, b_acc = 2, b_w = Num 10, b_h = Num 10, b_mass = Num 1,
      b_cr = Num 1, b_mu = Num 0, b_world = None, static = False, solid = True,
      cbOnUpdate = True, cbOnApply = (\<lambda>f. f),
      b_mode = DrawableBodyMode_Rectangle, b_oPath = [], b_path = [],
      b_bb = \<lparr>bb_pos = 3, bb_w = Num 10, bb_h = Num 10\<rparr>\<rparr>"

definition vstore0 :: vstore where
  "vstore0 = [Vec (Num 0) (Num 0), Vec (Num 0) (Num 0), Vec (Num 0) (Num 0),
              Vec (Num 0) (Num 0), Vec (Num 7) (Num 9)]"

text \<open>Two empty worlds and fresh bodies, none of them attached.\<close>

definition heap0 :: heap where
  "heap0 = \<lparr>h_bodies = (\<lambda>i. body0\<lparr>b_id := i\<rparr>), h_worlds = [world0, world0]\<rparr>"

section \<open>Invariants\<close>

text \<open>
  Every collection is free of repetitions, and each of its members points back at the
  world that holds it.
\<close>

definition membership_inv :: "heap \<Rightarrow> bool" where
  "membership_inv H \<longleftrightarrow>
     (\<forall>i<length (h_worlds H).
        distinct (bodies (h_worlds H ! i)) \<and>
        (\<forall>b\<in>set (bodies (h_worlds H ! i)). b_world (h_bodies H b) = Some i))"

section \<open>Sample sweep\<close>

text \<open>
  A world of three bodies with the velocities \<open>(1, 0)\<close>, \<open>(2, 0)\<close> and \<open>(4, 0)\<close>, all of
  mass 1 and restitution 1.
\<close>

definition world3 :: world where
  "world3 = world0\<lparr>bodies := [0, 1, 2]\<rparr>"

definition store3 :: "bid \<Rightarrow> vec body" where
  "store3 = (\<lambda>i. body0\<lparr>b_id := i\<rparr>)
     (0 := body0\<lparr>b_id := 0, b_vel := Vec (Num 1) (Num 0)\<rparr>,
      1 := body0\<lparr>b_id := 1, b_vel := Vec (Num 2) (Num 0)\<rparr>,
      2 := body0\<lparr>b_id := 2, b_vel := Vec (Num 4) (Num 0)\<rparr>)"

section \<open>Invariant of the sweep\<close>

text \<open>
  The calls recorded are the entries of \<open>calculatedCollisions\<close>; every entry is a pair
  of two different bodies of the world, and no two entries are the same pair up to
  order.
\<close>

definition sweep_inv :: "bid set \<Rightarrow> sweep_state \<Rightarrow> bool" where
  "sweep_inv S st \<longleftrightarrow>
     collide_calls st = calculatedCollisions st \<and>
     (\<forall>c\<in>set (collide_calls st). fst c \<noteq> snd c \<and> fst c \<in> S \<and> snd c \<in> S) \<and>
     distinct (map (\<lambda>c. {fst c, snd c}) (collide_calls st))"

section \<open>Properties of the collision response\<close>

lemmas EdgeMode_defs =
  EdgeMode_None_def EdgeMode_Hold_def EdgeMode_Wrap_def EdgeMode_Bounce_def

lemmas DrawableBodyMode_defs =
  DrawableBodyMode_Point_def DrawableBodyMode_Ellipse_def
  DrawableBodyMode_Rectangle_def DrawableBodyMode_Path_def

lemma body0_new: "DrawableBody_new 0 (Num 0) (Num 0) (Num 10) (Num 10) = Inr body0"
  by (simp add: DrawableBody_new_def calcBoundingBox_def body0_def createVector_def
      DrawableBodyMode_defs)

text \<open>The three branches of \<open>Body.collide\<close> on solid bodies, written out.\<close>

lemma collide_static_a:
  "solid a \<Longrightarrow> solid b \<Longrightarrow> static a \<Longrightarrow>
   collide a b = (a, b\<lparr>b_vel := vmult (b_vel b) (js_neg (b_cr b))\<rparr>)"
  by (simp add: collide_def vel_set_def coefficientOfRestitution_def)

lemma collide_static_b:
  "solid a \<Longrightarrow> solid b \<Longrightarrow> \<not> static a \<Longrightarrow> static b \<Longrightarrow>
   collide a b = (a, b\<lparr>b_vel := vmult (b_vel a) (js_neg (b_cr a))\<rparr>)"
  by (simp add: collide_def vel_set_def coefficientOfRestitution_def)

lemma collide_dynamic:
  "solid a \<Longrightarrow> solid b \<Longrightarrow> \<not> static a \<Longrightarrow> \<not> static b \<Longrightarrow>
   collide a b =
     (a\<lparr>b_vel := vdiv (vadd (vadd (vmult (vmult (vsub (b_vel b) (b_vel a)) (b_mass b)) (b_cr a))
                   (vmult (b_vel a) (b_mass a))) (vmult (b_vel b) (b_mass b)))
                   (js_add (b_mass a) (b_mass b))\<rparr>,
      b\<lparr>b_vel := vdiv (vadd (vadd (vmult (vmult (vsub (b_vel a) (b_vel b)) (b_mass a)) (b_cr b))
                   (vmult (b_vel a) (b_mass a))) (vmult (b_vel b) (b_mass b)))
                   (js_add (b_mass a) (b_mass b))\<rparr>)"
  by (simp add: collide_def Let_def vel_set_def mass_def coefficientOfRestitution_def)

text \<open>
  The previous revision treats the two one-static cases alike: the static body keeps
  its velocity and the moving one is reflected with its own coefficient.
\<close>

lemma collide_prev_one_static:
  "solid a \<Longrightarrow> solid b \<Longrightarrow> static a \<noteq> static b \<Longrightarrow>
   collide_prev a b =
     (if static a then (a, b\<lparr>b_vel := vmult (b_vel b) (js_neg (b_cr b))\<rparr>)
      else (a\<lparr>b_vel := vmult (b_vel a) (js_neg (b_cr a))\<rparr>, b))"
  by (auto simp add: collide_prev_def coefficientOfRestitution_def)

text \<open>
  C1.  One body static: the static body should keep its velocity, the moving body
  should leave with its own velocity negated and scaled by its own restitution
  coefficient.  With a moving \<open>a\<close> (velocity \<open>(2, 0)\<close>, coefficient \<open>1/2\<close>) and a static
  \<open>b\<close> at rest the current \<open>Body.collide\<close> does otherwise: \<open>a\<close> keeps \<open>(2, 0)\<close> and the
  static \<open>b\<close> is given \<open>(-1, 0)\<close>.
\<close>

theorem collide_static_b_moves_static:
  "b_vel (fst (collide (body0\<lparr>b_vel := Vec (Num 2) (Num 0), b_cr := Num (1/2)\<rparr>)
                       (body0\<lparr>b_id := 1, static := True\<rparr>))) = Vec (Num 2) (Num 0) \<and>
   b_vel (snd (collide (body0\<lparr>b_vel := Vec (Num 2) (Num 0), b_cr := Num (1/2)\<rparr>)
                       (body0\<lparr>b_id := 1, static := True\<rparr>))) = Vec (Num (- 1)) (Num 0)"
  by (simp add: collide_def body0_def vel_set_def coefficientOfRestitution_def vmult_def)

text \<open>
  C2.  Two moving solid bodies of mass 1 and restitution 1 with velocities \<open>(2, 0)\<close>
  and \<open>(-2, 0)\<close> leave \<open>Body.collide\<close> with velocities \<open>(-2, 0)\<close> and \<open>(2, 0)\<close>: the
  velocities are exchanged, each computed from the two velocities before the call.
\<close>

theorem collide_elastic_exchange:
  assumes "\<not> static a" "\<not> static b" "solid a" "solid b"
    and "b_mass a = Num 1" "b_mass b = Num 1" "b_cr a = Num 1" "b_cr b = Num 1"
    and "b_vel a = Vec (Num 2) (Num 0)" "b_vel b = Vec (Num (- 2)) (Num 0)"
  shows "b_vel (fst (collide a b)) = Vec (Num (- 2)) (Num 0) \<and>
         b_vel (snd (collide a b)) = Vec (Num 2) (Num 0)"
  using assms
  by (simp add: collide_dynamic vdiv_def vadd_def vmult_def vsub_def js_sub_def)

theorem collide_elastic_exchange_witness:
  "b_vel (fst (collide (body0\<lparr>b_vel := Vec (Num 2) (Num 0)\<rparr>)
                       (body0\<lparr>b_id := 1, b_vel := Vec (Num (- 2)) (Num 0)\<rparr>)))
     = Vec (Num (- 2)) (Num 0) \<and>
   b_vel (snd (collide (body0\<lparr>b_vel := Vec (Num 2) (Num 0)\<rparr>)
                       (body0\<lparr>b_id := 1, b_vel := Vec (Num (- 2)) (Num 0)\<rparr>)))
     = Vec (Num 2) (Num 0)"
  using collide_elastic_exchange
    [of "body0\<lparr>b_vel := Vec (Num 2) (Num 0)\<rparr>"
        "body0\<lparr>b_id := 1, b_vel := Vec (Num (- 2)) (Num 0)\<rparr>"]
  by (simp add: body0_def)

lemma collide_only_vel:
  "(fst (collide a b))\<lparr>b_vel := b_vel a\<rparr> = a"
  "(snd (collide a b))\<lparr>b_vel := b_vel b\<rparr> = b"
  by (simp_all add: collide_def vel_set_def Let_def)

text \<open>
  C10.  \<open>Body.collide\<close> writes nothing but the two velocities: put the old velocity
  back and each body is what it was, in position, acceleration, extent, mass,
  coefficients, flags, shape, path, bounding box and back-reference.  The same holds
  for every body of a store on two of whose bodies, different or not, \<open>Body.collide\<close>
  is run.
\<close>

theorem collide_frame:
  "(fst (collide a b))\<lparr>b_vel := b_vel a\<rparr> = a \<and>
   (snd (collide a b))\<lparr>b_vel := b_vel b\<rparr> = b \<and>
   (collide_at s i j k)\<lparr>b_vel := b_vel (s k)\<rparr> = s k"
  by (simp add: collide_only_vel collide_at_def Let_def)

theorem collide_frame_witness:
  "(fst (collide (body0\<lparr>b_vel := Vec (Num 2) (Num 0)\<rparr>)
                 (body0\<lparr>b_id := 1, b_vel := Vec (Num (- 2)) (Num 0)\<rparr>)))
      \<lparr>b_vel := Vec (Num 2) (Num 0)\<rparr> = body0\<lparr>b_vel := Vec (Num 2) (Num 0)\<rparr> \<and>
   (snd (collide (body0\<lparr>b_vel := Vec (Num 2) (Num 0)\<rparr>)
                 (body0\<lparr>b_id := 1, b_vel := Vec (Num (- 2)) (Num 0)\<rparr>)))
      \<lparr>b_vel := Vec (Num (- 2)) (Num 0)\<rparr> = body0\<lparr>b_id := 1, b_vel := Vec (Num (- 2)) (Num 0)\<rparr>"
  using collide_frame
    [of "body0\<lparr>b_vel := Vec (Num 2) (Num 0)\<rparr>"
        "body0\<lparr>b_id := 1, b_vel := Vec (Num (- 2)) (Num 0)\<rparr>"]
  by simp

section \<open>Properties of integration\<close>

lemma applyForce_static [simp]: "static (applyForce f b) = static b"
  by (simp add: applyForce_def acc_set_def Let_def)

lemma applyForce_cbOnUpdate [simp]: "cbOnUpdate (applyForce f b) = cbOnUpdate b"
  by (simp add: applyForce_def acc_set_def Let_def)

lemma applyForces_static [simp]: "static (applyForces fs b) = static b"
  by (induction fs arbitrary: b) simp_all

lemma applyForces_cbOnUpdate [simp]: "cbOnUpdate (applyForces fs b) = cbOnUpdate b"
  by (induction fs arbitrary: b) simp_all

text \<open>A static body takes no force.\<close>

lemma applyForces_static_id: "static b \<Longrightarrow> applyForces fs b = b"
  by (induction fs arbitrary: b) (simp_all add: applyForce_def)

lemma update_moving_acc:
  "\<not> static b \<or> \<not> cbOnUpdate b \<Longrightarrow> b_acc (fst (update b)) = Vec (Num 0) (Num 0)"
  by (auto simp add: update_def Let_def acc_set_def createVector_def)

lemma update_frozen: "static b \<Longrightarrow> cbOnUpdate b \<Longrightarrow> update b = (b, False)"
  by (simp add: update_def)

text \<open>
  The override in \<open>DrawableBody\<close> adds the bounding box, which does not touch the
  acceleration: whenever it returns, the acceleration is as \<open>Body.update\<close> left it.
\<close>

lemma calcBoundingBox_acc: "calcBoundingBox b = Inr b' \<Longrightarrow> b_acc b' = b_acc b"
  by (auto simp add: calcBoundingBox_def Let_def split: if_splits)

lemma update_acc:
  "b_acc (fst (update b)) = (if static b \<and> cbOnUpdate b then b_acc b else Vec (Num 0) (Num 0))"
  by (auto simp add: update_def Let_def acc_set_def createVector_def)

lemma DrawableBody_update_acc:
  "DrawableBody_update b = Inr b' \<Longrightarrow>
   b_acc b' = (if static b \<and> cbOnUpdate b then b_acc b else Vec (Num 0) (Num 0))"
  using update_acc [of b]
  by (auto simp add: DrawableBody_update_def Let_def dest: calcBoundingBox_acc split: if_splits)

text \<open>
  C3, as the code has it.  After any run of \<open>applyForce\<close> calls, \<open>update\<close> leaves the
  acceleration at exactly \<open>(0, 0)\<close> when the body is not static, or is static with an
  update hook that returns \<open>false\<close>.  A static body whose hook does not return \<open>false\<close>
  is skipped by both methods and keeps the acceleration it had.
\<close>

theorem update_acc_after:
  "b_acc (fst (update (applyForces fs b))) =
     (if static b \<and> cbOnUpdate b then b_acc b else Vec (Num 0) (Num 0))"
proof (cases "static b \<and> cbOnUpdate b")
  case True
  then show ?thesis by (simp add: applyForces_static_id update_frozen)
next
  case False
  then have "\<not> static (applyForces fs b) \<or> \<not> cbOnUpdate (applyForces fs b)" by simp
  from update_moving_acc [OF this] False show ?thesis by auto
qed

theorem update_acc_after_witness:
  "b_acc (fst (update (applyForces [Vec (Num 1) (Num 2), Vec (Num 3) (Num 4)] body0)))
     = Vec (Num 0) (Num 0)"
  using update_acc_after [of "[Vec (Num 1) (Num 2), Vec (Num 3) (Num 4)]" body0]
  by (simp add: body0_def)

text \<open>
  C3 as stated fails for a static body: a body that took the force \<open>(1, 0)\<close> and was
  then made static still has the acceleration \<open>(1, 0)\<close> after further \<open>applyForce\<close>
  calls and \<open>update\<close>.
\<close>

theorem update_static_keeps_acc:
  "static ((applyForce (Vec (Num 1) (Num 0)) body0)\<lparr>static := True\<rparr>) \<and>
   b_acc (fst (update (applyForces [Vec (Num 5) (Num 5)]
            ((applyForce (Vec (Num 1) (Num 0)) body0)\<lparr>static := True\<rparr>))))
     = Vec (Num 1) (Num 0)"
  by (simp add: update_def applyForce_def body0_def acc_set_def vadd_def vdiv_def)

section \<open>Properties of the coefficient setters\<close>

text \<open>
  C4, as the code has it.  The restitution setter stores the clamp of its argument to
  \<open>[0, 1]\<close> and changes nothing else: a finite \<open>r\<close> is stored as \<open>max 0 (min 1 r)\<close>,
  positive infinity and NaN as 1, and negative infinity, being below 0, as 0.  The
  friction setter does the same on its field.  Neither has a failing branch.
\<close>

theorem coefficient_setters_clamp:
  "b_cr (coefficientOfRestitution_set val b) =
     (case val of Num r \<Rightarrow> Num (max 0 (min 1 r)) | PosInf \<Rightarrow> Num 1
                | NegInf \<Rightarrow> Num 0 | NaN \<Rightarrow> Num 1) \<and>
   (coefficientOfRestitution_set val b)\<lparr>b_cr := b_cr b\<rparr> = b \<and>
   b_mu (coefficientOfFriction_set val b) =
     (case val of Num r \<Rightarrow> Num (max 0 (min 1 r)) | PosInf \<Rightarrow> Num 1
                | NegInf \<Rightarrow> Num 0 | NaN \<Rightarrow> Num 1) \<and>
   (coefficientOfFriction_set val b)\<lparr>b_mu := b_mu b\<rparr> = b"
  by (cases val)
     (auto simp add: coefficientOfRestitution_set_def coefficientOfFriction_set_def js_gt_def)

theorem coefficient_setters_clamp_witness:
  "b_cr (coefficientOfRestitution_set (Num (- 1)) body0) = Num 0 \<and>
   b_cr (coefficientOfRestitution_set (Num 2) body0) = Num 1 \<and>
   b_cr (coefficientOfRestitution_set NaN body0) = Num 1 \<and>
   b_cr (coefficientOfRestitution_set PosInf body0) = Num 1 \<and>
   b_cr (coefficientOfRestitution_set (Num (1/2)) body0) = Num (1/2) \<and>
   b_mu (coefficientOfFriction_set (Num (9/10)) body0) = Num (9/10)"
  using coefficient_setters_clamp [of "Num (- 1)" body0]
        coefficient_setters_clamp [of "Num 2" body0]
        coefficient_setters_clamp [of NaN body0]
        coefficient_setters_clamp [of PosInf body0]
        coefficient_setters_clamp [of "Num (1/2)" body0]
        coefficient_setters_clamp [of "Num (9/10)" body0]
  by simp

text \<open>
  C4 as stated has every infinite argument stored as 1.  Negative infinity is infinite
  and is stored as 0, not as 1.
\<close>

theorem restitution_negative_infinity:
  "\<not> isFinite NegInf \<and>
   b_cr (coefficientOfRestitution_set NegInf body0) = Num 0 \<and>
   b_cr (coefficientOfRestitution_set NegInf body0) \<noteq> Num 1"
  by (simp add: coefficientOfRestitution_set_def)

section \<open>Properties of edge handling\<close>

lemma cbChangePos_pos [simp]: "b_pos (cbChangePos d b) = b_pos b"
  and cbChangePos_vel [simp]: "b_vel (cbChangePos d b) = b_vel b"
  by (simp_all add: cbChangePos_def)

text \<open>
  C5.  In a world whose edge mode is Bounce, a body left of the left bound whose
  y-position is neither above nor below the y-bounds comes out of \<open>edges\<close> with its
  x-position exactly on the left bound and its x-velocity negated, y-position and
  y-velocity as before.
\<close>

theorem edges_bounce_left:
  assumes "edgeMode W = EdgeMode_Bounce"
    and "js_lt (posX b) (w_x W)"
    and "\<not> js_lt (posY b) (w_y W)"
    and "\<not> js_gt (posY b) (js_add (w_y W) (w_h W))"
  shows "\<exists>b'. edges (Some W) b = Inr b' \<and> posX b' = w_x W \<and> velX b' = js_neg (velX b) \<and>
              posY b' = posY b \<and> velY b' = velY b"
  using assms
  by (simp add: edges_def EdgeMode_defs Let_def posX_def posY_def velX_def velY_def
      posX_set_def velX_set_def)

theorem edges_bounce_left_witness:
  "\<exists>b'. edges (Some world0)
           (body0\<lparr>b_pos := Vec (Num (- 5)) (Num 100), b_vel := Vec (Num (- 3)) (Num 1)\<rparr>) = Inr b' \<and>
        posX b' = Num 0 \<and> velX b' = Num 3 \<and> posY b' = Num 100 \<and> velY b' = Num 1"
  using edges_bounce_left
    [of world0 "body0\<lparr>b_pos := Vec (Num (- 5)) (Num 100), b_vel := Vec (Num (- 3)) (Num 1)\<rparr>"]
  by (simp add: world0_def body0_def posX_def posY_def velX_def velY_def js_gt_def EdgeMode_defs)

section \<open>Properties of the position accessor\<close>

lemma or_zero_idem [simp]: "or_zero (or_zero x) = or_zero x"
  by (simp add: or_zero_def)

lemma or_zero_id: "\<not> isNaN x \<Longrightarrow> or_zero x = x"
  by (auto simp add: or_zero_def)

text \<open>
  C7, as the code has it.  Set the position from the caller's vector \<open>vector\<close> and read
  it back: the vector returned is \<open>vector\<close> with every NaN component replaced by 0, so
  it equals \<open>vector\<close> in value whenever \<open>vector\<close> has no NaN component.  Overwriting the
  returned vector object, or overwriting \<open>vector\<close> after the call, leaves the vector
  object the body holds as its position with the value stored: setter and getter each
  work on a copy.
\<close>

theorem pos_roundtrip_copy:
  assumes "vector < length H"
  shows "(let S1 = pos_set_ref vector H b; R = pos_get_ref (fst S1) (snd S1);
              v = H ! vector; stored = Vec (or_zero (vec_x v)) (or_zero (vec_y v))
          in fst R ! snd R = stored \<and>
             (\<not> isNaN (vec_x v) \<and> \<not> isNaN (vec_y v) \<longrightarrow> fst R ! snd R = v) \<and>
             (\<forall>u. (fst R)[snd R := u] ! b_pos (snd S1) = stored) \<and>
             (\<forall>u. (fst S1)[vector := u] ! b_pos (snd S1) = stored))"
  using assms
  by (simp add: pos_set_ref_def pos_get_ref_def copy_def Let_def nth_append or_zero_id)

theorem pos_roundtrip_copy_witness:
  "(let S1 = pos_set_ref 4 vstore0 body_ref0; R = pos_get_ref (fst S1) (snd S1)
    in fst R ! snd R = Vec (Num 7) (Num 9) \<and>
       (fst R)[snd R := Vec (Num 1) (Num 1)] ! b_pos (snd S1) = Vec (Num 7) (Num 9) \<and>
       (fst S1)[4 := Vec (Num 1) (Num 1)] ! b_pos (snd S1) = Vec (Num 7) (Num 9))"
  using pos_roundtrip_copy [of 4 vstore0 body_ref0]
  by (simp add: vstore0_def Let_def or_zero_def)

text \<open>
  C7 as stated fails for a vector with a NaN component: set from \<open>(NaN, 9)\<close>, the
  position reads back as \<open>(0, 9)\<close>, which is not the vector given.
\<close>

theorem pos_roundtrip_nan:
  "fst (pos_get_ref (fst (pos_set_ref 4 (vstore0[4 := Vec NaN (Num 9)]) body_ref0))
                    (snd (pos_set_ref 4 (vstore0[4 := Vec NaN (Num 9)]) body_ref0)))
     ! snd (pos_get_ref (fst (pos_set_ref 4 (vstore0[4 := Vec NaN (Num 9)]) body_ref0))
                        (snd (pos_set_ref 4 (vstore0[4 := Vec NaN (Num 9)]) body_ref0)))
     = Vec (Num 0) (Num 9) \<and>
   (vstore0[4 := Vec NaN (Num 9)]) ! 4 = Vec NaN (Num 9) \<and>
   Vec (Num 0) (Num 9) \<noteq> Vec NaN (Num 9)"
  by (simp add: pos_set_ref_def pos_get_ref_def copy_def Let_def vstore0_def or_zero_def
      nth_append)

section \<open>Properties of the shape mutators\<close>

lemma calcBoundingBox_Path:
  "b_mode b = DrawableBodyMode_Path \<Longrightarrow>
   \<exists>b'. calcBoundingBox b = Inr b' \<and> b_mode b' = DrawableBodyMode_Path \<and> b_path b' = b_path b"
  by (simp add: calcBoundingBox_def Let_def DrawableBodyMode_defs)

lemma setPolygon_null_first:
  "setPolygon (None # vs) b = Inr (b\<lparr>b_mode := DrawableBodyMode_Path\<rparr>)"
  by (simp add: setPolygon_def)

lemma setPolygon_null_later:
  "None \<in> set vertices \<Longrightarrow> \<not> (\<exists>vs. vertices = None # vs) \<Longrightarrow>
   setPolygon vertices b = Inl TypeError"
  by (cases vertices) (auto simp add: setPolygon_def split: option.splits)

lemma setPolygon_vertices:
  "None \<notin> set vertices \<Longrightarrow>
   setPolygon vertices b =
     calcBoundingBox
       (b\<lparr>b_mode := DrawableBodyMode_Path, b_path := map the vertices,
          b_oPath := map (\<lambda>v. (js_sub (fst v) (vec_x (b_pos b)),
                                js_sub (snd v) (vec_y (b_pos b)))) (map the vertices)\<rparr>)"
  by (cases vertices) (auto simp add: setPolygon_def Let_def split: option.splits)

text \<open>
  C8, as the code has it.  \<open>setPolygon\<close> never raises a usage error: in every drawing
  mode it puts the body into Path mode and, given vertices, stores them (given \<open>null\<close>
  first, it sets the mode only).  The usage error belongs to \<open>setPath\<close> of the earlier
  revision, which raises it exactly when the body is not in Path mode and stores the
  path otherwise.
\<close>

theorem setPolygon_any_mode:
  "(\<forall>msg. setPolygon vertices b \<noteq> Inl (Error msg)) \<and>
   (\<forall>vs. vertices = None # vs \<longrightarrow>
      setPolygon vertices b = Inr (b\<lparr>b_mode := DrawableBodyMode_Path\<rparr>)) \<and>
   (None \<notin> set vertices \<longrightarrow>
      (\<exists>b'. setPolygon vertices b = Inr b' \<and> b_mode b' = DrawableBodyMode_Path \<and>
            b_path b' = map the vertices)) \<and>
   (b_mode b \<noteq> DrawableBodyMode_Path \<longrightarrow>
      setPath path b = Inl (Error ''Cannot utilise method - drawing mode is not path'')) \<and>
   (b_mode b = DrawableBodyMode_Path \<longrightarrow> setPath path b = Inr (b\<lparr>b_path := path\<rparr>))"
proof -
  let ?b2 = "b\<lparr>b_mode := DrawableBodyMode_Path, b_path := map the vertices,
               b_oPath := map (\<lambda>v. (js_sub (fst v) (vec_x (b_pos b)),
                                     js_sub (snd v) (vec_y (b_pos b)))) (map the vertices)\<rparr>"
  have "b_mode ?b2 = DrawableBodyMode_Path" by simp
  from calcBoundingBox_Path [OF this]
  obtain b' where b': "calcBoundingBox ?b2 = Inr b'" "b_mode b' = DrawableBodyMode_Path"
    "b_path b' = map the vertices" by auto
  have stored: "None \<notin> set vertices \<longrightarrow>
      (\<exists>b'. setPolygon vertices b = Inr b' \<and> b_mode b' = DrawableBodyMode_Path \<and>
            b_path b' = map the vertices)"
    using b' by (auto simp add: setPolygon_vertices)
  have no_usage: "setPolygon vertices b \<noteq> Inl (Error msg)" for msg
  proof (cases "None \<in> set vertices")
    case False
    with b' show ?thesis by (simp add: setPolygon_vertices)
  next
    case True
    show ?thesis
    proof (cases "\<exists>vs. vertices = None # vs")
      case True
      then show ?thesis by (auto simp add: setPolygon_null_first)
    next
      case False
      with \<open>None \<in> set vertices\<close> show ?thesis by (simp add: setPolygon_null_later)
    qed
  qed
  from no_usage stored show ?thesis
    by (simp add: setPolygon_null_first setPath_def)
qed

theorem setPolygon_any_mode_witness:
  "(\<exists>b'. setPolygon [Some (Num 0, Num 0), Some (Num 10, Num 0), Some (Num 0, Num 10)] body0 = Inr b' \<and>
         b_mode b' = DrawableBodyMode_Path \<and>
         b_path b' = [(Num 0, Num 0), (Num 10, Num 0), (Num 0, Num 10)]) \<and>
   setPath [(Num 0, Num 0)] body0 = Inl (Error ''Cannot utilise method - drawing mode is not path'')"
  using setPolygon_any_mode [of "[Some (Num 0, Num 0), Some (Num 10, Num 0), Some (Num 0, Num 10)]" body0 "[(Num 0, Num 0)]"]
  by (simp add: body0_def DrawableBodyMode_defs)

text \<open>
  C8 as stated fails: a fresh body is in Rectangle mode, and \<open>setPolygon\<close> on it
  succeeds, leaving it in Path mode with the vertices and their bounding box stored.
\<close>

theorem setPolygon_in_rectangle_mode:
  "b_mode body0 = DrawableBodyMode_Rectangle \<and> DrawableBodyMode_Rectangle \<noteq> DrawableBodyMode_Path \<and>
   (case setPolygon [Some (Num 0, Num 0), Some (Num 10, Num 0), Some (Num 0, Num 10)] body0 of
      Inl e \<Rightarrow> False
    | Inr b' \<Rightarrow> b_mode b' = DrawableBodyMode_Path \<and>
                b_path b' = [(Num 0, Num 0), (Num 10, Num 0), (Num 0, Num 10)] \<and>
                b_bb b' = \<lparr>bb_pos = Vec (Num 0) (Num 0), bb_w = Num 10, bb_h = Num 10\<rparr>)"
  by (simp add: setPolygon_def body0_def calcBoundingBox_def DrawableBodyMode_defs Let_def
      bb_step_def js_gt_def js_sub_def createVector_def)

section \<open>Properties of world membership\<close>

lemma indexOf_ge: "- 1 \<le> indexOf xs x"
  by (induction xs) (auto simp add: Let_def)

lemma indexOf_absent: "indexOf xs x = - 1 \<longleftrightarrow> x \<notin> set xs"
proof (induction xs)
  case Nil
  then show ?case by simp
next
  case (Cons y ys)
  have "- 1 \<le> indexOf ys x" by (rule indexOf_ge)
  with Cons show ?case by (auto simp add: Let_def)
qed

lemma splice1_indexOf: "x \<in> set xs \<Longrightarrow> splice1 (nat (indexOf xs x)) xs = remove1 x xs"
proof (induction xs)
  case Nil
  then show ?case by simp
next
  case (Cons y ys)
  show ?case
  proof (cases "y = x")
    case True
    then show ?thesis by (simp add: splice1_def)
  next
    case False
    with Cons.prems have mem: "x \<in> set ys" by simp
    then have ne: "indexOf ys x \<noteq> - 1" by (simp add: indexOf_absent)
    with indexOf_ge [of ys x] have pos: "0 \<le> indexOf ys x" by linarith
    then have "nat (indexOf ys x + 1) = Suc (nat (indexOf ys x))" by simp
    with False ne Cons.IH [OF mem] show ?thesis
      by (simp add: splice1_def Let_def)
  qed
qed

lemma World_remove_eq:
  "fst (World_remove w b H) =
     (if b \<in> set (bodies (h_worlds H ! w))
      then H\<lparr>h_worlds := (h_worlds H)[w := (h_worlds H ! w)\<lparr>bodies := remove1 b (bodies (h_worlds H ! w))\<rparr>]\<rparr>
      else H)"
  by (simp add: World_remove_def Let_def indexOf_absent splice1_indexOf)

lemma inv_remove:
  assumes "membership_inv H"
  shows "membership_inv (fst (World_remove w b H))"
proof (cases "b \<in> set (bodies (h_worlds H ! w))")
  case False
  with assms show ?thesis by (simp add: World_remove_eq)
next
  case True
  show ?thesis
    unfolding membership_inv_def
  proof (intro allI impI)
    fix i assume "i < length (h_worlds (fst (World_remove w b H)))"
    with True have i: "i < length (h_worlds H)" by (simp add: World_remove_eq)
    from assms i have d: "distinct (bodies (h_worlds H ! i))"
      and m: "\<forall>c\<in>set (bodies (h_worlds H ! i)). b_world (h_bodies H c) = Some i"
      by (simp_all add: membership_inv_def)
    show "distinct (bodies (h_worlds (fst (World_remove w b H)) ! i)) \<and>
          (\<forall>c\<in>set (bodies (h_worlds (fst (World_remove w b H)) ! i)).
              b_world (h_bodies (fst (World_remove w b H)) c) = Some i)"
    proof (cases "i = w")
      case True
      with \<open>b \<in> set (bodies (h_worlds H ! w))\<close> i d m show ?thesis
        by (auto simp add: World_remove_eq dest: notin_set_remove1)
    next
      case False
      with \<open>b \<in> set (bodies (h_worlds H ! w))\<close> i d m show ?thesis
        by (simp add: World_remove_eq)
    qed
  qed
qed

lemma attached_nth: "i < length (h_worlds H) \<Longrightarrow> b \<in> set (bodies (h_worlds H ! i)) \<Longrightarrow> attached H b"
  unfolding attached_def using nth_mem by blast

lemma inv_addBody:
  assumes "membership_inv H" and w: "w < length (h_worlds H)" and na: "\<not> attached H b"
  shows "membership_inv (World_addBody w b H)"
  unfolding membership_inv_def
proof (intro allI impI)
  fix i assume "i < length (h_worlds (World_addBody w b H))"
  then have i: "i < length (h_worlds H)" by (simp add: World_addBody_def)
  from assms i have d: "distinct (bodies (h_worlds H ! i))"
    and m: "\<forall>c\<in>set (bodies (h_worlds H ! i)). b_world (h_bodies H c) = Some i"
    by (simp_all add: membership_inv_def)
  from na i have nb: "b \<notin> set (bodies (h_worlds H ! i))" using attached_nth by blast
  show "distinct (bodies (h_worlds (World_addBody w b H) ! i)) \<and>
        (\<forall>c\<in>set (bodies (h_worlds (World_addBody w b H) ! i)).
            b_world (h_bodies (World_addBody w b H) c) = Some i)"
  proof (cases "i = w")
    case True
    with i d m nb show ?thesis by (auto simp add: World_addBody_def)
  next
    case False
    with i d m nb show ?thesis by (auto simp add: World_addBody_def)
  qed
qed

lemma inv_run:
  "membership_inv H \<Longrightarrow> adds_detached xs H \<Longrightarrow> membership_inv (run_ops xs H)"
proof (induction xs arbitrary: H)
  case Nil
  then show ?case by simp
next
  case (Cons x xs)
  show ?case
  proof (cases x)
    case (AddBody w b)
    with Cons.prems have "membership_inv (World_addBody w b H)" and "adds_detached xs (World_addBody w b H)"
      by (simp_all add: inv_addBody)
    with Cons.IH AddBody show ?thesis by simp
  next
    case (Remove w b)
    with Cons.prems have "membership_inv (fst (World_remove w b H))" and "adds_detached xs (fst (World_remove w b H))"
      by (simp_all add: inv_remove)
    with Cons.IH Remove show ?thesis by simp
  qed
qed

lemma distinct_count_one: "distinct xs \<Longrightarrow> x \<in> set xs \<Longrightarrow> count_list xs x = 1"
  by (induction xs) auto

lemma inv_empty: "\<forall>W\<in>set (h_worlds H). bodies W = [] \<Longrightarrow> membership_inv H"
  by (simp add: membership_inv_def)

text \<open>
  C9, as the code has it.  Start from worlds with empty collections and run any
  sequence of \<open>addBody\<close> and \<open>remove\<close> calls in which \<open>addBody\<close> is only given a body
  that no collection holds at that moment.  Then every body in a collection has its
  back-reference on the world of that collection, occurs there once, and is in no
  other collection.
\<close>

theorem world_membership:
  assumes "\<forall>W\<in>set (h_worlds H). bodies W = []" and "adds_detached xs H"
  shows "\<forall>i<length (h_worlds (run_ops xs H)).
           \<forall>b\<in>set (bodies (h_worlds (run_ops xs H) ! i)).
             b_world (h_bodies (run_ops xs H) b) = Some i \<and>
             count_list (bodies (h_worlds (run_ops xs H) ! i)) b = 1 \<and>
             (\<forall>j<length (h_worlds (run_ops xs H)).
                b \<in> set (bodies (h_worlds (run_ops xs H) ! j)) \<longrightarrow> j = i)"
proof (intro allI impI ballI)
  let ?H = "run_ops xs H"
  fix i b assume i: "i < length (h_worlds ?H)" and b: "b \<in> set (bodies (h_worlds ?H ! i))"
  from assms have inv: "membership_inv ?H" by (simp add: inv_empty inv_run)
  from inv i b have bk: "b_world (h_bodies ?H b) = Some i"
    and d: "distinct (bodies (h_worlds ?H ! i))"
    by (simp_all add: membership_inv_def)
  from d b have cnt: "count_list (bodies (h_worlds ?H ! i)) b = 1"
    by (simp add: distinct_count_one)
  have one: "\<forall>j<length (h_worlds ?H). b \<in> set (bodies (h_worlds ?H ! j)) \<longrightarrow> j = i"
  proof (intro allI impI)
    fix j assume "j < length (h_worlds ?H)" and "b \<in> set (bodies (h_worlds ?H ! j))"
    with inv have "b_world (h_bodies ?H b) = Some j" by (simp add: membership_inv_def)
    with bk show "j = i" by simp
  qed
  from bk cnt one
  show "b_world (h_bodies ?H b) = Some i \<and> count_list (bodies (h_worlds ?H ! i)) b = 1 \<and>
        (\<forall>j<length (h_worlds ?H). b \<in> set (bodies (h_worlds ?H ! j)) \<longrightarrow> j = i)"
    by blast
qed

lemma run_eval:
  "run_ops [AddBody 0 5, AddBody 1 6, Remove 0 5, AddBody 1 5] heap0 =
     \<lparr>h_bodies = (\<lambda>i. body0\<lparr>b_id := i\<rparr>)(5 := body0\<lparr>b_id := 5, b_world := Some 1\<rparr>, 6 := body0\<lparr>b_id := 6, b_world := Some 1\<rparr>),
      h_worlds = [world0, world0\<lparr>bodies := [6, 5]\<rparr>]\<rparr>"
  by (simp add: heap0_def World_addBody_def World_remove_def world0_def splice1_def Let_def fun_upd_twist)

theorem world_membership_witness:
  "b_world (h_bodies (run_ops [AddBody 0 5, AddBody 1 6, Remove 0 5, AddBody 1 5] heap0) 5) = Some 1 \<and>
   count_list (bodies (h_worlds (run_ops [AddBody 0 5, AddBody 1 6, Remove 0 5, AddBody 1 5] heap0) ! 1)) 5 = 1 \<and>
   5 \<notin> set (bodies (h_worlds (run_ops [AddBody 0 5, AddBody 1 6, Remove 0 5, AddBody 1 5] heap0) ! 0))"
proof -
  have e: "\<forall>W\<in>set (h_worlds heap0). bodies W = []"
    by (simp add: heap0_def world0_def)
  have a: "adds_detached [AddBody 0 5, AddBody 1 6, Remove 0 5, AddBody 1 5] heap0"
    by (simp add: heap0_def World_addBody_def World_remove_def world0_def splice1_def Let_def attached_def)
  note f = world_membership [OF e a, unfolded run_eval, rule_format, of 1 5]
  show ?thesis unfolding run_eval using f by (simp add: world0_def)
qed

text \<open>
  C9 as stated fails twice over.  \<open>addBody\<close> does not look at where the body is: added
  to world 0 and then to world 1, body 5 is in both collections.  \<open>remove\<close> does not
  touch the back-reference: added to world 0 and removed again, body 5 is in no
  collection and still points at world 0.
\<close>

theorem addBody_twice_two_worlds:
  "5 \<in> set (bodies (h_worlds (run_ops [AddBody 0 5, AddBody 1 5] heap0) ! 0)) \<and>
   5 \<in> set (bodies (h_worlds (run_ops [AddBody 0 5, AddBody 1 5] heap0) ! 1)) \<and>
   \<not> attached (run_ops [AddBody 0 5, Remove 0 5] heap0) 5 \<and>
   b_world (h_bodies (run_ops [AddBody 0 5, Remove 0 5] heap0) 5) = Some 0"
  by (simp add: heap0_def World_addBody_def World_remove_def world0_def splice1_def Let_def attached_def)

section \<open>Properties of the collision sweep\<close>

lemma doneCollision_iff:
  "doneCollision cs a b \<longleftrightarrow> {a, b} \<in> (\<lambda>c. {fst c, snd c}) ` set cs"
  by (induction cs) (auto simp add: doubleton_eq_iff)

lemma sweep_pair_inv:
  assumes "sweep_inv S st" "bodyA \<in> S" "bodyB \<in> S"
  shows "sweep_inv S (sweep_pair collision bodyA st bodyB)"
  using assms
  by (auto simp add: sweep_pair_def sweep_inv_def Let_def doneCollision_iff)

lemma sweep_pairs_inv:
  "sweep_inv S st \<Longrightarrow> bodyA \<in> S \<Longrightarrow> set bs \<subseteq> S \<Longrightarrow>
   sweep_inv S (foldl (sweep_pair collision bodyA) st bs)"
  by (induction bs arbitrary: st) (simp_all add: sweep_pair_inv)

lemma sweep_body_inv:
  "sweep_inv (set (bodies W)) st \<Longrightarrow> bodyA \<in> set (bodies W) \<Longrightarrow>
   sweep_inv (set (bodies W)) (sweep_body collision W st bodyA)"
  by (simp add: sweep_body_def sweep_pairs_inv)

lemma sweep_bodies_inv:
  "sweep_inv (set (bodies W)) st \<Longrightarrow> set as \<subseteq> set (bodies W) \<Longrightarrow>
   sweep_inv (set (bodies W)) (foldl (sweep_body collision W) st as)"
  by (induction as arbitrary: st) (simp_all add: sweep_body_inv)

lemma collisionSweep_inv: "sweep_inv (set (bodies W)) (collisionSweep collision W s)"
  unfolding collisionSweep_def
  by (rule sweep_bodies_inv) (simp_all add: sweep_inv_def)

lemma distinct_map_filter_le1:
  "distinct (map f xs) \<Longrightarrow> length (filter (\<lambda>x. f x = y) xs) \<le> 1"
  by (induction xs) (auto simp add: filter_empty_conv image_iff)

lemma pairs_bound:
  assumes "finite S"
    and "\<forall>c\<in>set cs. fst c \<noteq> snd c \<and> fst c \<in> S \<and> snd c \<in> S"
    and "distinct (map (\<lambda>c. {fst c, snd c}) cs)"
  shows "length cs \<le> card S choose 2"
proof -
  let ?f = "\<lambda>c. {fst c, snd c}"
  have "length cs = card (?f ` set cs)"
    using assms(3) distinct_card [of "map ?f cs"] by simp
  also have "\<dots> \<le> card {B. B \<subseteq> S \<and> card B = 2}"
  proof (rule card_mono)
    show "finite {B. B \<subseteq> S \<and> card B = 2}" using assms(1) by simp
    show "?f ` set cs \<subseteq> {B. B \<subseteq> S \<and> card B = 2}"
      using assms(2) by (auto simp add: card_2_iff)
  qed
  also have "\<dots> = card S choose 2" using assms(1) by (rule n_subsets)
  finally show ?thesis .
qed

text \<open>
  C6.  In the collision sweep of one \<open>World.update\<close>, whatever the detector answers,
  \<open>Body.collide\<close> is called at most once on any pair of bodies, in either order; in a
  world of three bodies there are at most three calls.
\<close>

theorem sweep_once_per_pair:
  "length (filter (\<lambda>c. c = (a, b) \<or> c = (b, a)) (collide_calls (collisionSweep collision W s))) \<le> 1 \<and>
   (length (bodies W) = 3 \<longrightarrow> length (collide_calls (collisionSweep collision W s)) \<le> 3)"
proof
  let ?cs = "collide_calls (collisionSweep collision W s)"
  have inv: "sweep_inv (set (bodies W)) (collisionSweep collision W s)" by (rule collisionSweep_inv)
  then have d: "distinct (map (\<lambda>c. {fst c, snd c}) ?cs)" unfolding sweep_inv_def by blast
  have "(\<lambda>c::nat \<times> nat. c = (a, b) \<or> c = (b, a)) = (\<lambda>c. {fst c, snd c} = {a, b})"
    by (auto simp add: doubleton_eq_iff fun_eq_iff)
  with distinct_map_filter_le1 [OF d, of "{a, b}"]
  show "length (filter (\<lambda>c. c = (a, b) \<or> c = (b, a)) ?cs) \<le> 1" by simp
  show "length (bodies W) = 3 \<longrightarrow> length ?cs \<le> 3"
  proof
    assume len: "length (bodies W) = 3"
    have "card (set (bodies W)) \<le> 3" using card_length [of "bodies W"] len by simp
    then have "card (set (bodies W)) choose 2 \<le> 3 choose 2" by (rule binomial_right_mono)
    moreover have "(3::nat) choose 2 = 3" by (simp add: choose_two)
    moreover from inv have "length ?cs \<le> card (set (bodies W)) choose 2"
      unfolding sweep_inv_def by (intro pairs_bound) blast+
    ultimately show "length ?cs \<le> 3" by linarith
  qed
qed

text \<open>
  With three bodies that the detector reports as colliding pairwise, the sweep calls
  \<open>Body.collide\<close> on \<open>(0, 1)\<close>, \<open>(0, 2)\<close> and \<open>(1, 2)\<close>, and on no pair in the other order.
\<close>

lemma sweep3_eval:
  "collide_calls (collisionSweep (\<lambda>a b. True) world3 store3) = [(0, 1), (0, 2), (1, 2)]"
  by (simp add: collisionSweep_def sweep_body_def sweep_pair_def world3_def world0_def store3_def
       body0_def collide_at_def collide_def Let_def vel_set_def mass_def coefficientOfRestitution_def
       vsub_def vadd_def vmult_def vdiv_def mag_def js_sub_def js_gt_def)

theorem sweep_once_per_pair_witness:
  "length (bodies world3) = 3 \<and>
   collide_calls (collisionSweep (\<lambda>a b. True) world3 store3) = [(0, 1), (0, 2), (1, 2)] \<and>
   length (filter (\<lambda>c. c = (0, 1) \<or> c = (1, 0)) (collide_calls (collisionSweep (\<lambda>a b. True) world3 store3))) \<le> 1 \<and>
   length (collide_calls (collisionSweep (\<lambda>a b. True) world3 store3)) \<le> 3"
  using sweep_once_per_pair [of 0 1 "\<lambda>a b. True" world3 store3]
  by (simp add: sweep3_eval) (simp add: world3_def)

end
